theory Spec2Isabelle
  imports Main "HOL-Library.Word"
begin

section \<open>The frame value type of boost/stacktrace/frame.hpp\<close>

subsection \<open>Addresses\<close>

text \<open>
  A \<^verbatim>\<open>const void*\<close> is a machine address: a word of the platform's pointer width
  \<open>'p\<close> in a flat address space, the null pointer being the address 0. Pointers are
  compared as unsigned addresses. \<^verbatim>\<open>std::size_t\<close> is the unsigned integer type of the same
  width, as on the platforms the header selects a backend for (32-bit and 64-bit Windows
  and POSIX systems).
\<close>

type_synonym 'p pointer = "'p word"
type_synonym 'p size_t = "'p word"

text \<open>The contextual conversion of a pointer to \<^verbatim>\<open>bool\<close>: true for every non-null pointer.\<close>

definition pointer_to_bool :: "'p::len pointer \<Rightarrow> bool" where
  "pointer_to_bool p = (p \<noteq> 0)"

text \<open>
  \<^verbatim>\<open>reinterpret_cast<std::size_t>(p)\<close>: the unsigned integer that has the bits of the
  address.
\<close>

definition reinterpret_cast_size_t :: "'p::len pointer \<Rightarrow> 'p size_t" where
  "reinterpret_cast_size_t p = ucast p"

subsection \<open>The class frame\<close>

text \<open>The class has one data member, \<^verbatim>\<open>const void* addr_\<close>.\<close>

record (overloaded) ('p::len) frame =
  addr :: "'p pointer"

text \<open>\<^verbatim>\<open>frame() : addr_(0) {}\<close>\<close>

definition frame_default :: "'p::len frame" where
  "frame_default = \<lparr>addr = 0\<rparr>"

text \<open>\<^verbatim>\<open>explicit frame(const void* addr) : addr_(addr) {}\<close>\<close>

definition frame :: "'p::len pointer \<Rightarrow> 'p frame" where
  "frame a = \<lparr>addr = a\<rparr>"

text \<open>\<^verbatim>\<open>const void* address() const { return addr_; }\<close>\<close>

definition address :: "'p::len frame \<Rightarrow> 'p pointer" where
  "address f = addr f"

text \<open>\<^verbatim>\<open>bool empty() const { return !address(); }\<close>\<close>

definition empty_frame :: "'p::len frame \<Rightarrow> bool" where
  "empty_frame f = (\<not> pointer_to_bool (address f))"

text \<open>\<^verbatim>\<open>bool operator!() const { return !address(); }\<close>\<close>

definition operator_not :: "'p::len frame \<Rightarrow> bool" where
  "operator_not f = (\<not> pointer_to_bool (address f))"

text \<open>
  Modelled from the spec: the macro \<^verbatim>\<open>BOOST_EXPLICIT_OPERATOR_BOOL_NOEXCEPT()\<close> that the
  class invokes is defined in boost/core/explicit_operator_bool.hpp, which is not among the
  sources. The conversion it declares is the negation of the class's own \<^verbatim>\<open>operator!\<close>;
  the comment above the invocation says it returns true if \<^verbatim>\<open>this->address() != 0\<close>, and
  the specification that the boolean conversion tells whether the address is null.
\<close>

definition operator_bool :: "'p::len frame \<Rightarrow> bool" where
  "operator_bool f = (\<not> operator_not f)"

subsection \<open>Comparison operators and hashing\<close>

text \<open>
  The six free comparison operators, in the order of the source: \<^verbatim>\<open><\<close> compares the
  addresses, \<^verbatim>\<open>>\<close> swaps the operands of \<^verbatim>\<open><\<close>, \<^verbatim>\<open><=\<close> negates \<^verbatim>\<open>>\<close>, \<^verbatim>\<open>>=\<close> negates
  \<^verbatim>\<open><\<close>, \<^verbatim>\<open>==\<close> compares the addresses and \<^verbatim>\<open>!=\<close> negates \<^verbatim>\<open>==\<close>.
\<close>

definition operator_lt :: "'p::len frame \<Rightarrow> 'p frame \<Rightarrow> bool" where
  "operator_lt lhs rhs = (address lhs < address rhs)"

definition operator_gt :: "'p::len frame \<Rightarrow> 'p frame \<Rightarrow> bool" where
  "operator_gt lhs rhs = operator_lt rhs lhs"

definition operator_le :: "'p::len frame \<Rightarrow> 'p frame \<Rightarrow> bool" where
  "operator_le lhs rhs = (\<not> operator_gt lhs rhs)"

definition operator_ge :: "'p::len frame \<Rightarrow> 'p frame \<Rightarrow> bool" where
  "operator_ge lhs rhs = (\<not> operator_lt lhs rhs)"

definition operator_eq :: "'p::len frame \<Rightarrow> 'p frame \<Rightarrow> bool" where
  "operator_eq lhs rhs = (address lhs = address rhs)"

definition operator_ne :: "'p::len frame \<Rightarrow> 'p frame \<Rightarrow> bool" where
  "operator_ne lhs rhs = (\<not> operator_eq lhs rhs)"

text \<open>\<^verbatim>\<open>hash_value(f)\<close> returns \<^verbatim>\<open>reinterpret_cast<std::size_t>(f.address())\<close>.\<close>

definition hash_value :: "'p::len frame \<Rightarrow> 'p size_t" where
  "hash_value f = reinterpret_cast_size_t (address f)"

subsection \<open>Stream insertion\<close>

text \<open>
  \<^verbatim>\<open>operator<<(os, f)\<close> returns \<^verbatim>\<open>os << backend::to_string(f.address())\<close>. The body of
  \<^verbatim>\<open>backend::to_string\<close> is in backend.ipp and the string inserter of
  \<^verbatim>\<open>std::basic_ostream\<close> is the standard library's: both are parameters, \<open>to_string\<close>
  and \<open>put\<close>.
\<close>

definition operator_shl ::
  "('os \<Rightarrow> string \<Rightarrow> 'os) \<Rightarrow> ('p::len pointer \<Rightarrow> string) \<Rightarrow> 'os \<Rightarrow> 'p frame \<Rightarrow> 'os" where
  "operator_shl put to_string os f = put os (to_string (address f))"



section \<open>The backend\<close>

text \<open>
  Modelled from the spec: the bodies of \<^verbatim>\<open>frame::name\<close>, \<^verbatim>\<open>frame::source_file\<close>,
  \<^verbatim>\<open>frame::source_line\<close> and \<^verbatim>\<open>backend::collect\<close> are in
  boost/stacktrace/detail/backend.ipp, which is not among the sources; frame.hpp only
  declares them. What a backend knows of the program image is a symbol table, giving the
  function name of the addresses it resolves, and a line table, giving the path of the
  source file and the 1-based line.
\<close>

record (overloaded) ('p::len) backend =
  function_names :: "'p pointer \<rightharpoonup> string"
  line_table :: "'p pointer \<rightharpoonup> string \<times> nat"

text \<open>
  Modelled from the spec: \<^verbatim>\<open>name()\<close> "returns the resolved function name as text, or an
  empty string if unresolvable (e.g., empty frame, stripped symbols, backend limitation)".
\<close>

definition name :: "'p::len backend \<Rightarrow> 'p frame \<Rightarrow> string" where
  "name b f =
     (if empty_frame f then []
      else case function_names b (address f) of None \<Rightarrow> [] | Some n \<Rightarrow> n)"

text \<open>
  Modelled from the spec: \<^verbatim>\<open>source_line()\<close> "returns the 1-based source line number, or 0
  if unknown"; an empty frame is a resolution miss, which "returns empty string / zero line
  number".
\<close>

definition source_line :: "'p::len backend \<Rightarrow> 'p frame \<Rightarrow> nat" where
  "source_line b f =
     (if empty_frame f then 0
      else case line_table b (address f) of None \<Rightarrow> 0 | Some (file, line) \<Rightarrow> line)"

text \<open>
  Modelled from the spec: \<^verbatim>\<open>source_file()\<close> "returns the path of the source file defining
  the frame's function, or empty string if the line number is unknown/zero"; the comment
  of its declaration says the same ("Returns empty string if this->source_line() == 0").
\<close>

definition source_file :: "'p::len backend \<Rightarrow> 'p frame \<Rightarrow> string" where
  "source_file b f =
     (if source_line b f = 0 then []
      else case line_table b (address f) of None \<Rightarrow> [] | Some (file, line) \<Rightarrow> file)"

text \<open>
  Storing addresses into consecutive cells of the caller's storage, from index \<open>i\<close> on.
  A list update beyond the end of the list changes nothing, where the C++ would overrun the
  storage: the storage is expected to hold the cells that are written.
\<close>

fun store_addresses :: "'a list \<Rightarrow> nat \<Rightarrow> 'a list \<Rightarrow> 'a list" where
  "store_addresses [] i memory = memory"
| "store_addresses (a # as) i memory = store_addresses as (Suc i) (memory[i := a])"

text \<open>
  Modelled from the spec: \<^verbatim>\<open>collect(buffer, capacity)\<close> "fills up to capacity raw addresses
  representing the current call stack (deepest/most-recent frame first is the conventional
  order) into caller-owned storage; returns the number written", and it "truncates, does
  not fail" when the capacity is smaller than the stack depth. \<open>stack\<close> is the live call
  stack, most recent frame first; the result is the storage afterwards and the count.
\<close>

definition collect :: "'a list \<Rightarrow> 'a list \<Rightarrow> nat \<Rightarrow> 'a list \<times> nat" where
  "collect stack buffer capacity =
     (let count = min capacity (length stack)
      in (store_addresses (take count stack) 0 buffer, count))"

section \<open>Operations on a frame object\<close>

text \<open>
  The operations of the interface as calls on a frame object, with the object passed
  through: a call returns its result and the object as the call leaves it. Every member
  function of the class is declared \<^verbatim>\<open>const\<close>, the free operators and \<^verbatim>\<open>hash_value\<close> take
  their frames by reference to const, and no body assigns \<^verbatim>\<open>addr_\<close>. A comparison is a
  call on its left operand, the right operand being the argument; stream insertion has the
  stream as its argument. Copy assignment is not one of these operations.
\<close>

datatype ('f, 'os) operation =
    Call_address
  | Call_empty
  | Call_operator_bool
  | Call_operator_not
  | Call_operator_lt 'f
  | Call_operator_gt 'f
  | Call_operator_le 'f
  | Call_operator_ge 'f
  | Call_operator_eq 'f
  | Call_operator_ne 'f
  | Call_hash_value
  | Call_name
  | Call_source_file
  | Call_source_line
  | Call_operator_shl 'os

datatype ('a, 'os) outcome =
    Pointer_result 'a
  | Bool_result bool
  | Size_result 'a
  | String_result string
  | Line_result nat
  | Stream_result 'os

fun perform ::
  "'p::len backend \<Rightarrow> ('os \<Rightarrow> string \<Rightarrow> 'os) \<Rightarrow> ('p pointer \<Rightarrow> string) \<Rightarrow> 'p frame \<Rightarrow>
     ('p frame, 'os) operation \<Rightarrow> ('p word, 'os) outcome \<times> 'p frame" where
  "perform b put to_string f Call_address = (Pointer_result (address f), f)"
| "perform b put to_string f Call_empty = (Bool_result (empty_frame f), f)"
| "perform b put to_string f Call_operator_bool = (Bool_result (operator_bool f), f)"
| "perform b put to_string f Call_operator_not = (Bool_result (operator_not f), f)"
| "perform b put to_string f (Call_operator_lt rhs) = (Bool_result (operator_lt f rhs), f)"
| "perform b put to_string f (Call_operator_gt rhs) = (Bool_result (operator_gt f rhs), f)"
| "perform b put to_string f (Call_operator_le rhs) = (Bool_result (operator_le f rhs), f)"
| "perform b put to_string f (Call_operator_ge rhs) = (Bool_result (operator_ge f rhs), f)"
| "perform b put to_string f (Call_operator_eq rhs) = (Bool_result (operator_eq f rhs), f)"
| "perform b put to_string f (Call_operator_ne rhs) = (Bool_result (operator_ne f rhs), f)"
| "perform b put to_string f Call_hash_value = (Size_result (hash_value f), f)"
| "perform b put to_string f Call_name = (String_result (name b f), f)"
| "perform b put to_string f Call_source_file = (String_result (source_file b f), f)"
| "perform b put to_string f Call_source_line = (Line_result (source_line b f), f)"
| "perform b put to_string f (Call_operator_shl os) =
     (Stream_result (operator_shl put to_string os f), f)"

text \<open>A sequence of calls on one object, each on the object as the call before left it.\<close>

fun perform_all ::
  "'p::len backend \<Rightarrow> ('os \<Rightarrow> string \<Rightarrow> 'os) \<Rightarrow> ('p pointer \<Rightarrow> string) \<Rightarrow> 'p frame \<Rightarrow>
     ('p frame, 'os) operation list \<Rightarrow> ('p word, 'os) outcome list \<times> 'p frame" where
  "perform_all b put to_string f [] = ([], f)"
| "perform_all b put to_string f (c # cs) =
     (case perform b put to_string f c of
        (r, f') \<Rightarrow>
          (case perform_all b put to_string f' cs of (rs, f'') \<Rightarrow> (r # rs, f'')))"

section \<open>Construction and address\<close>

text \<open>
  Claim C1: for every address \<open>a\<close>, constructing a frame from \<open>a\<close> and then calling
  \<^verbatim>\<open>address()\<close> returns \<open>a\<close> unchanged.
\<close>

theorem frame_address: "address (frame a) = a"
  by (simp add: address_def frame_def)

section \<open>Emptiness and boolean conversion\<close>

text \<open>
  Claim C2: the default-constructed frame is empty; for every non-null address \<open>a\<close> the
  frame constructed from \<open>a\<close> is not empty; and for every frame \<open>f\<close>, \<^verbatim>\<open>f.empty()\<close> is true
  exactly when the boolean conversion of \<open>f\<close> is false.
\<close>

theorem frame_empty_bool:
  "empty_frame (frame_default :: 'p::len frame) \<and>
   ((a :: 'p pointer) \<noteq> 0 \<longrightarrow> \<not> empty_frame (frame a)) \<and>
   empty_frame (f :: 'p frame) = (\<not> operator_bool f)"
  by (simp add: empty_frame_def operator_bool_def operator_not_def pointer_to_bool_def
      address_def frame_default_def frame_def)

theorem frame_empty_bool_witness:
  "(5 :: 64 pointer) \<noteq> 0 \<and> \<not> empty_frame (frame (5 :: 64 pointer)) \<and>
   empty_frame (frame_default :: 64 frame) \<and>
   empty_frame (frame (5 :: 64 pointer)) = (\<not> operator_bool (frame (5 :: 64 pointer)))"
  using frame_empty_bool [of "5 :: 64 pointer" "frame (5 :: 64 pointer)"] by auto

section \<open>Ordering\<close>

text \<open>
  Claim C3: for every pair of frames \<open>a\<close> and \<open>b\<close>, exactly one of \<^verbatim>\<open>a<b\<close>, \<^verbatim>\<open>a>b\<close>,
  \<^verbatim>\<open>a==b\<close> holds; \<^verbatim>\<open>a<=b\<close> holds if and only if \<^verbatim>\<open>!(a>b)\<close>, and \<^verbatim>\<open>a>=b\<close> if and only if
  \<^verbatim>\<open>!(a<b)\<close>. With the transitivity of \<^verbatim>\<open><\<close>, the last conjunct, the operators are a
  total order of the frames by their addresses.
\<close>

theorem frame_order_total:
  "((operator_lt a b \<and> \<not> operator_gt a b \<and> \<not> operator_eq a b) \<or>
    (\<not> operator_lt a b \<and> operator_gt a b \<and> \<not> operator_eq a b) \<or>
    (\<not> operator_lt a b \<and> \<not> operator_gt a b \<and> operator_eq a b)) \<and>
   operator_le a b = (\<not> operator_gt a b) \<and>
   operator_ge a b = (\<not> operator_lt a b) \<and>
   (operator_lt a b \<and> operator_lt b c \<longrightarrow> operator_lt a c)"
  by (auto simp add: operator_lt_def operator_gt_def operator_le_def operator_ge_def
      operator_eq_def)

theorem frame_order_total_witness:
  "operator_lt (frame (3 :: 64 pointer)) (frame 5) \<and>
   operator_lt (frame (5 :: 64 pointer)) (frame 9) \<and>
   operator_lt (frame (3 :: 64 pointer)) (frame 9) \<and>
   \<not> operator_gt (frame (3 :: 64 pointer)) (frame 5) \<and>
   \<not> operator_eq (frame (3 :: 64 pointer)) (frame 5) \<and>
   operator_le (frame (3 :: 64 pointer)) (frame 5) \<and>
   \<not> operator_ge (frame (3 :: 64 pointer)) (frame 5)"
  using frame_order_total [of "frame (3 :: 64 pointer)" "frame 5" "frame 9"]
  by (simp add: operator_lt_def operator_gt_def operator_le_def operator_ge_def
      operator_eq_def address_def frame_def)

section \<open>Hashing\<close>

text \<open>
  Claim C4: for every frame \<open>f\<close>, \<^verbatim>\<open>hash_value(f)\<close> is the address of \<open>f\<close> read as an
  unsigned integer, and the hash is consistent with equality: equal addresses, and frames
  that \<^verbatim>\<open>==\<close> holds of, have equal hash values.
\<close>

theorem hash_value_address:
  "unat (hash_value f) = unat (address f) \<and>
   (a = a' \<longrightarrow> hash_value (frame a) = hash_value (frame a')) \<and>
   (operator_eq f g \<longrightarrow> hash_value f = hash_value g)"
  by (simp add: hash_value_def reinterpret_cast_size_t_def operator_eq_def)

theorem hash_value_address_witness:
  "unat (hash_value (frame (4198400 :: 64 pointer))) = 4198400 \<and>
   operator_eq (frame (4198400 :: 64 pointer)) (frame 4198400) \<and>
   hash_value (frame (4198400 :: 64 pointer)) = hash_value (frame (4198400 :: 64 pointer))"
  using hash_value_address [of "frame (4198400 :: 64 pointer)" 4198400 4198400
      "frame (4198400 :: 64 pointer)"]
  by (simp add: operator_eq_def address_def frame_def)

text \<open>
  Claim C9: the hash is consistent with equality in both directions: for all frames \<open>f\<close>
  and \<open>g\<close>, \<^verbatim>\<open>hash_value(f) == hash_value(g)\<close> if and only if \<^verbatim>\<open>f == g\<close>; distinct addresses
  have distinct hash values.
\<close>

theorem hash_value_injective:
  "(hash_value f = hash_value g) = operator_eq f g \<and>
   (hash_value (frame a) = hash_value (frame a')) = (a = a')"
  by (simp add: hash_value_def reinterpret_cast_size_t_def operator_eq_def address_def frame_def)

section \<open>Stream insertion delegates to the backend\<close>




section \<open>Resolution of the empty frame and of unknown lines\<close>

text \<open>
  Claim C6: for the empty frame (address 0), \<^verbatim>\<open>name()\<close> returns the empty string,
  \<^verbatim>\<open>source_file()\<close> returns the empty string and \<^verbatim>\<open>source_line()\<close> returns 0, whichever
  backend \<open>b\<close> is active, also one whose tables have an entry at address 0.
\<close>

theorem empty_frame_unresolved:
  "address f = 0 \<Longrightarrow> name b f = [] \<and> source_file b f = [] \<and> source_line b f = 0"
  by (simp add: name_def source_file_def source_line_def empty_frame_def pointer_to_bool_def)

theorem empty_frame_unresolved_witness:
  "address (frame_default :: 64 frame) = 0 \<and>
   name \<lparr>function_names = [0 \<mapsto> ''start''], line_table = [0 \<mapsto> (''crt0.s'', 1)]\<rparr>
     (frame_default :: 64 frame) = [] \<and>
   source_file \<lparr>function_names = [0 \<mapsto> ''start''], line_table = [0 \<mapsto> (''crt0.s'', 1)]\<rparr>
     (frame_default :: 64 frame) = [] \<and>
   source_line \<lparr>function_names = [0 \<mapsto> ''start''], line_table = [0 \<mapsto> (''crt0.s'', 1)]\<rparr>
     (frame_default :: 64 frame) = 0"
  using empty_frame_unresolved [of "frame_default :: 64 frame"
      "\<lparr>function_names = [0 \<mapsto> ''start''], line_table = [0 \<mapsto> (''crt0.s'', 1)]\<rparr>"]
  by (simp add: address_def frame_default_def)

text \<open>
  Claim C7: for every frame \<open>f\<close>, if \<^verbatim>\<open>f.source_line()\<close> is 0 then \<^verbatim>\<open>f.source_file()\<close>
  returns the empty string; otherwise it returns the path that the line table has for the
  address of \<open>f\<close>, beside the line that \<^verbatim>\<open>source_line()\<close> returns.
\<close>

theorem source_file_by_line:
  "(source_line b f = 0 \<longrightarrow> source_file b f = []) \<and>
   (source_line b f \<noteq> 0 \<longrightarrow>
      line_table b (address f) = Some (source_file b f, source_line b f))"
  by (auto simp add: source_file_def source_line_def split: option.splits if_splits)

theorem source_file_by_line_witness:
  "source_line \<lparr>function_names = Map.empty, line_table = [4198400 \<mapsto> (''main.cpp'', 42)]\<rparr>
     (frame (4198400 :: 64 pointer)) \<noteq> 0 \<and>
   source_file \<lparr>function_names = Map.empty, line_table = [4198400 \<mapsto> (''main.cpp'', 42)]\<rparr>
     (frame (4198400 :: 64 pointer)) = ''main.cpp'' \<and>
   source_line \<lparr>function_names = Map.empty, line_table = [4198400 \<mapsto> (''main.cpp'', 42)]\<rparr>
     (frame (4198404 :: 64 pointer)) = 0 \<and>
   source_file \<lparr>function_names = Map.empty, line_table = [4198400 \<mapsto> (''main.cpp'', 42)]\<rparr>
     (frame (4198404 :: 64 pointer)) = []"
  using source_file_by_line [of
      "\<lparr>function_names = Map.empty, line_table = [4198400 \<mapsto> (''main.cpp'', 42)]\<rparr>"
      "frame (4198400 :: 64 pointer)"]
    source_file_by_line [of
      "\<lparr>function_names = Map.empty, line_table = [4198400 \<mapsto> (''main.cpp'', 42)]\<rparr>"
      "frame (4198404 :: 64 pointer)"]
  by (simp add: source_line_def empty_frame_def pointer_to_bool_def address_def frame_def)

section \<open>Collecting into bounded storage\<close>

lemma length_store_addresses: "length (store_addresses xs i memory) = length memory"
  by (induction xs arbitrary: i memory) simp_all

lemma take_store_addresses: "j \<le> i \<Longrightarrow> take j (store_addresses xs i memory) = take j memory"
  by (induction xs arbitrary: i memory) simp_all

lemma drop_store_addresses:
  "drop (i + length xs) (store_addresses xs i memory) = drop (i + length xs) memory"
proof (induction xs arbitrary: i memory)
  case Nil
  show ?case by simp
next
  case (Cons a as)
  have "drop (Suc i + length as) (store_addresses as (Suc i) (memory[i := a])) =
      drop (Suc i + length as) (memory[i := a])"
    by (rule Cons.IH)
  then show ?case by simp
qed

lemma store_addresses_fits:
  "i + length xs \<le> length memory \<Longrightarrow>
   take (length xs) (drop i (store_addresses xs i memory)) = xs"
proof (induction xs arbitrary: i memory)
  case Nil
  then show ?case by simp
next
  case (Cons a as)
  let ?m = "memory[i := a]"
  let ?r = "store_addresses as (Suc i) ?m"
  from Cons.prems have i: "i < length memory" and fit: "Suc i + length as \<le> length ?m"
    by simp_all
  have tl: "take (length as) (drop (Suc i) ?r) = as"
    using Cons.IH [OF fit] .
  have "take (Suc i) ?r = take (Suc i) ?m"
    by (rule take_store_addresses) simp
  then have "?r ! i = ?m ! i"
    by (metis lessI nth_take)
  with i have hd: "?r ! i = a"
    by simp
  have len: "i < length ?r"
    using i by (simp add: length_store_addresses)
  have "drop i ?r = ?r ! i # drop (Suc i) ?r"
    using len by (simp add: Cons_nth_drop_Suc)
  with hd tl show ?case
    by simp
qed

text \<open>
  Claim C8: for every storage and capacity, \<^verbatim>\<open>collect(buffer, capacity)\<close> writes at most
  \<open>capacity\<close> addresses and returns the number written: the count is at most the capacity
  and the stack depth, the cells from the count on are as they were (and no cell is added),
  and storage that has \<open>capacity\<close> cells holds the first \<open>count\<close> addresses of the stack in
  its first cells. With a capacity below the stack depth the count is the capacity; with
  capacity 0 the count is 0 and the storage is unchanged.
\<close>

theorem collect_truncates:
  assumes "collect stack buffer capacity = (buffer', count)"
  shows "count \<le> capacity \<and> count \<le> length stack \<and>
    length buffer' = length buffer \<and>
    drop count buffer' = drop count buffer \<and>
    (capacity \<le> length buffer \<longrightarrow> take count buffer' = take count stack) \<and>
    (capacity < length stack \<longrightarrow> count = capacity) \<and>
    (capacity = 0 \<longrightarrow> count = 0 \<and> buffer' = buffer)"
proof -
  from assms have count: "count = min capacity (length stack)"
    and buffer': "buffer' = store_addresses (take count stack) 0 buffer"
    by (auto simp add: collect_def Let_def)
  have len: "length (take count stack) = count"
    using count by simp
  have "drop (0 + length (take count stack)) buffer' = drop (0 + length (take count stack)) buffer"
    unfolding buffer' by (rule drop_store_addresses)
  then have dr: "drop count buffer' = drop count buffer"
    using len by simp
  have tk: "take count buffer' = take count stack" if "capacity \<le> length buffer"
  proof -
    from that count have "0 + length (take count stack) \<le> length buffer"
      by simp
    from store_addresses_fits [OF this] show ?thesis
      using len by (simp add: buffer')
  qed
  have zero: "count = 0 \<and> buffer' = buffer" if "capacity = 0"
    using that count buffer' by simp
  show ?thesis
    using count dr tk zero by (simp add: buffer' length_store_addresses)
qed

theorem collect_truncates_witness:
  "collect [10, 20, 30, 40 :: 64 pointer] [1, 2, 3] 2 = ([10, 20, 3], 2) \<and>
   collect [10, 20, 30, 40 :: 64 pointer] [1, 2, 3] 0 = ([1, 2, 3], 0) \<and>
   (2 :: nat) \<le> length [1, 2, 3 :: 64 pointer] \<and>
   (2 :: nat) < length [10, 20, 30, 40 :: 64 pointer] \<and>
   take 2 [10, 20, 3 :: 64 pointer] = take 2 [10, 20, 30, 40]"
proof -
  have c2: "collect [10, 20, 30, 40 :: 64 pointer] [1, 2, 3] 2 = ([10, 20, 3], 2)"
    by (simp add: collect_def Let_def numeral_2_eq_2)
  have c0: "collect [10, 20, 30, 40 :: 64 pointer] [1, 2, 3] 0 = ([1, 2, 3], 0)"
    by (simp add: collect_def)
  show ?thesis
    using c2 c0 collect_truncates [OF c2] collect_truncates [OF c0] by simp
qed

section \<open>The address is fixed at construction\<close>

lemma perform_object: "snd (perform b put to_string f c) = f"
  by (cases c) simp_all

lemma perform_all_object: "snd (perform_all b put to_string f cs) = f"
proof (induction cs arbitrary: f)
  case Nil
  show ?case by simp
next
  case (Cons c cs)
  obtain r f' where step: "perform b put to_string f c = (r, f')"
    by (cases "perform b put to_string f c")
  then have "f' = f"
    using perform_object [of b put to_string f c] by simp
  moreover obtain rs f'' where rest: "perform_all b put to_string f' cs = (rs, f'')"
    by (cases "perform_all b put to_string f' cs")
  then have "f'' = f'"
    using Cons.IH [of f'] by simp
  ultimately show ?case
    using step rest by simp
qed

text \<open>
  Claim C10: the state of a frame is its stored address, fixed at construction: every
  operation (\<^verbatim>\<open>address()\<close>, \<^verbatim>\<open>empty()\<close>, the boolean conversion, the comparison operators,
  \<^verbatim>\<open>hash_value\<close>, \<^verbatim>\<open>name()\<close>, \<^verbatim>\<open>source_file()\<close>, \<^verbatim>\<open>source_line()\<close>, stream insertion)
  leaves the address of the object as it was, so after any sequence of operations on the
  frame constructed from \<open>a\<close>, \<^verbatim>\<open>address()\<close> returns \<open>a\<close>.
\<close>

theorem address_fixed_at_construction:
  "address (snd (perform b put to_string f c)) = address f \<and>
   address (snd (perform_all b put to_string f cs)) = address f \<and>
   address (snd (perform_all b put to_string (frame a) cs)) = a"
  by (simp add: perform_object perform_all_object address_def frame_def)

end
